theory Spec2Isabelle
  imports Complex_Main "HOL-Library.Word"
begin

section \<open>Strings of the source language\<close>

text \<open>
  The program is TypeScript: a string is a sequence of 16-bit code units, and
  \<^verbatim>\<open>length\<close> counts code units. Literals of the source are written with \<open>js\<close>.
\<close>

type_synonym jschar = "16 word"
type_synonym jsstring = "jschar list"

definition js :: "string \<Rightarrow> jsstring" where
  "js s = map of_char s"

definition newline :: jschar where
  "newline = 10"

text \<open>
  \<^verbatim>\<open>String.prototype.trim\<close> strips the code units of the grammar's WhiteSpace and
  LineTerminator productions: TAB, LF, VT, FF, CR, SPACE, NBSP, U+1680,
  U+2000..U+200A, U+2028, U+2029, U+202F, U+205F, U+3000 and U+FEFF.
\<close>

definition isWhiteSpace :: "jschar \<Rightarrow> bool" where
  "isWhiteSpace c \<longleftrightarrow>
     c = 9 \<or> c = 10 \<or> c = 11 \<or> c = 12 \<or> c = 13 \<or> c = 32 \<or> c = 160 \<or> c = 5760 \<or>
     (8192 \<le> c \<and> c \<le> 8202) \<or> c = 8232 \<or> c = 8233 \<or> c = 8239 \<or> c = 8287 \<or>
     c = 12288 \<or> c = 65279"

definition trimStart :: "jsstring \<Rightarrow> jsstring" where
  "trimStart s = dropWhile isWhiteSpace s"

definition trimEnd :: "jsstring \<Rightarrow> jsstring" where
  "trimEnd s = rev (dropWhile isWhiteSpace (rev s))"

definition trim :: "jsstring \<Rightarrow> jsstring" where
  "trim s = trimEnd (trimStart s)"

text \<open>
  \<^verbatim>\<open>text.split('\n')\<close>: the pieces between line feeds; never an empty array
  (the empty string splits into one empty piece).
\<close>

fun split_lines :: "jsstring \<Rightarrow> jsstring list" where
  "split_lines [] = [[]]"
| "split_lines (c # cs) =
     (if c = newline then [] # split_lines cs
      else (c # hd (split_lines cs)) # tl (split_lines cs))"


section \<open>The line-based fallback chunker\<close>

text \<open>
  \<^verbatim>\<open>_simpleChunk\<close> (the same body in \<^verbatim>\<open>ChunkingService\<close> and \<^verbatim>\<open>MemoryService\<close>).
  The loop state is the pair of the \<^verbatim>\<open>chunks\<close> array and \<^verbatim>\<open>currentChunk\<close>;
  \<open>simpleChunk_step\<close> is one iteration of the \<^verbatim>\<open>for\<close> loop. \<^verbatim>\<open>maxSize\<close> is a
  JavaScript number, taken as an integer here.
\<close>

fun simpleChunk_step :: "int \<Rightarrow> jsstring \<Rightarrow> jsstring list \<times> jsstring \<Rightarrow> jsstring list \<times> jsstring" where
  "simpleChunk_step maxSize line (chunks, currentChunk) =
     (if int (length currentChunk) + int (length line) > maxSize \<and> length currentChunk > 0
      then (chunks @ [currentChunk], line @ [newline])
      else (chunks, currentChunk @ line @ [newline]))"

definition simpleChunk_loop :: "int \<Rightarrow> jsstring list \<Rightarrow> jsstring list \<times> jsstring" where
  "simpleChunk_loop maxSize lines = fold (simpleChunk_step maxSize) lines ([], [])"

definition simpleChunk :: "jsstring \<Rightarrow> int \<Rightarrow> jsstring list" where
  "simpleChunk text maxSize =
     (let (chunks, currentChunk) = simpleChunk_loop maxSize (split_lines text);
          chunks' = (if length (trim currentChunk) > 0 then chunks @ [currentChunk] else chunks)
      in if length chunks' > 0 then chunks' else [text])"

text \<open>The non-whitespace content of a string, in order.\<close>

definition nonWhiteSpace :: "jsstring \<Rightarrow> jsstring" where
  "nonWhiteSpace s = filter (\<lambda>c. \<not> isWhiteSpace c) s"


section \<open>The structural chunker\<close>

text \<open>
  A syntax node as the chunker reads it: \<^verbatim>\<open>node.type\<close>, \<^verbatim>\<open>node.text\<close> and
  \<^verbatim>\<open>node.children\<close> (\<^verbatim>\<open>node.childCount\<close> is the number of children).
\<close>

datatype node = Node (node_type: jsstring) (node_text: jsstring) (node_children: "node list")

definition blockTypes :: "jsstring list" where
  "blockTypes = [js ''function_declaration'', js ''class_declaration'', js ''method_definition'']"

text \<open>
  \<^verbatim>\<open>_visitNode(node, chunks, maxSize)\<close> pushes onto the \<^verbatim>\<open>chunks\<close> array; the model
  takes the array and returns it extended.
\<close>

fun visitNode :: "node \<Rightarrow> jsstring list \<Rightarrow> int \<Rightarrow> jsstring list" where
  "visitNode (Node ty content children) chunks maxSize =
     (if ty \<in> set blockTypes \<and> int (length content) \<le> maxSize then chunks @ [content]
      else if length children > 0
        then fold (\<lambda>child acc. visitNode child acc maxSize) children chunks
      else if length (trim content) > 0 then chunks @ [content]
      else chunks)"


section \<open>Records, the store and the services' state\<close>

text \<open>
  A row of the table \<^verbatim>\<open>code_context\<close>: \<^verbatim>\<open>{vector, text, filepath, id}\<close>. The fields
  carry the prefix \<open>rec_\<close> (\<open>id\<close> and \<open>text\<close> are taken in Isabelle).
\<close>

type_synonym vector = "real list"

record row =
  rec_vector :: vector
  rec_text :: jsstring
  rec_filepath :: jsstring
  rec_id :: jsstring

type_synonym table = "row list"

datatype error =
    EmbeddingError jsstring
  | StoreError jsstring
  | TypeError
  | SyntaxError jsstring

text \<open>The record \<^verbatim>\<open>init\<close> creates the table with.\<close>

definition sentinel :: row where
  "sentinel = \<lparr>rec_vector = replicate 384 0, rec_text = js ''init'',
                rec_filepath = js ''init'', rec_id = js ''0''\<rparr>"

text \<open>
  The mutable state the services share: the table handle of \<^verbatim>\<open>MemoryService\<close>
  (\<open>None\<close> before \<^verbatim>\<open>init\<close>), the grammar cache and the active grammar of
  \<^verbatim>\<open>ChunkingService\<close>, the texts handed to \<^verbatim>\<open>EmbeddingService.getEmbedding\<close> so
  far, and the number of identifiers drawn from \<^verbatim>\<open>uuidv4\<close>.
\<close>

record state =
  table :: "table option"
  loadedLanguages :: "jsstring list"
  currentLanguageId :: "jsstring option"
  embedCalls :: "jsstring list"
  uuidCount :: nat

text \<open>
  What the services call and do not define: whether the parser was created, whether
  a grammar file loads, the parser (\<open>None\<close> when it throws), the embedding model
  (\<open>Inl\<close> when the promise rejects), the identifier generator, the distance of the
  store's nearest-neighbour search, and \<^verbatim>\<open>path.dirname\<close>.
\<close>

record env =
  parserReady :: bool
  languageLoad :: "jsstring \<Rightarrow> bool"
  parse :: "jsstring \<Rightarrow> jsstring \<Rightarrow> node option"
  getEmbedding :: "jsstring \<Rightarrow> error + vector"
  uuidv4 :: "nat \<Rightarrow> jsstring"
  distance :: "vector \<Rightarrow> vector \<Rightarrow> real"
  dirname :: "jsstring \<Rightarrow> jsstring"

subsection \<open>The store\<close>

text \<open>
  The vector database is outside the repository. Its table is the list of its rows:
  \<^verbatim>\<open>add\<close> appends, \<^verbatim>\<open>query().toArray()\<close> returns every row,
  \<^verbatim>\<open>search(v).limit(n).toArray()\<close> returns the \<open>n\<close> rows nearest to \<open>v\<close>, and
  \<^verbatim>\<open>delete(filter)\<close> removes the rows an SQL filter selects. Of SQL the model reads
  the one shape the operations below build, \<^verbatim>\<open>id = '...'\<close>, where a doubled quote inside
  the literal stands for one quote; any other filter is rejected. The other
  operations always succeed here, so the \<^verbatim>\<open>catch\<close> branches that answer a failing
  query with an empty result are not part of the model.
\<close>

definition quote :: jschar where
  "quote = 39"

fun sql_literal :: "jsstring \<Rightarrow> jsstring option" where
  "sql_literal [] = None"
| "sql_literal [c] = (if c = quote then Some [] else None)"
| "sql_literal (c # d # cs) =
     (if c = quote
      then (if d = quote then map_option ((#) quote) (sql_literal cs) else None)
      else map_option ((#) c) (sql_literal (d # cs)))"

definition strip_prefix :: "jsstring \<Rightarrow> jsstring \<Rightarrow> jsstring option" where
  "strip_prefix pre s =
     (if take (length pre) s = pre then Some (drop (length pre) s) else None)"

definition table_delete :: "jsstring \<Rightarrow> table \<Rightarrow> error + table" where
  "table_delete predicate t =
     (case strip_prefix (js ''id = '' @ [quote]) predicate of
        None \<Rightarrow> Inl (StoreError predicate)
      | Some body \<Rightarrow>
          (case sql_literal body of
             None \<Rightarrow> Inl (StoreError predicate)
           | Some v \<Rightarrow> Inr (filter (\<lambda>r. rec_id r \<noteq> v) t)))"

definition table_add :: "row list \<Rightarrow> table \<Rightarrow> table" where
  "table_add records t = t @ records"

definition table_search :: "env \<Rightarrow> vector \<Rightarrow> nat \<Rightarrow> table \<Rightarrow> row list" where
  "table_search e v n t = take n (sort_key (\<lambda>r. distance e v (rec_vector r)) t)"

subsection \<open>ChunkingService\<close>

definition LANGUAGE_CONFIG :: "(jsstring \<times> jsstring) list" where
  "LANGUAGE_CONFIG =
     [(js ''typescript'', js ''tree-sitter-typescript.wasm''),
      (js ''typescriptreact'', js ''tree-sitter-tsx.wasm''),
      (js ''python'', js ''tree-sitter-python.wasm''),
      (js ''c'', js ''tree-sitter-c.wasm''),
      (js ''cpp'', js ''tree-sitter-cpp.wasm''),
      (js ''bash'', js ''tree-sitter-bash.wasm'')]"

text \<open>
  \<^verbatim>\<open>languageId in LANGUAGE_CONFIG\<close>, read on the six keys of the table. (A name the
  object inherits, such as \<^verbatim>\<open>constructor\<close>, also passes the \<^verbatim>\<open>in\<close> test of the source;
  its grammar never loads, and \<^verbatim>\<open>chunk\<close> then falls back to the same line chunker the
  other branch of \<^verbatim>\<open>addDocument\<close> calls.)
\<close>

definition isLanguageSupported :: "jsstring \<Rightarrow> bool" where
  "isLanguageSupported languageId \<longleftrightarrow> languageId \<in> set (map fst LANGUAGE_CONFIG)"

definition loadLanguage :: "env \<Rightarrow> state \<Rightarrow> jsstring \<Rightarrow> bool \<times> state" where
  "loadLanguage e st languageId =
     (if \<not> parserReady e then (False, st)
      else if languageId \<in> set (loadedLanguages st)
        then (True, st\<lparr>currentLanguageId := Some languageId\<rparr>)
      else (case map_of LANGUAGE_CONFIG languageId of
              None \<Rightarrow> (False, st)
            | Some wasmFile \<Rightarrow>
                if languageLoad e wasmFile
                then (True, st\<lparr>loadedLanguages := loadedLanguages st @ [languageId],
                                currentLanguageId := Some languageId\<rparr>)
                else (False, st)))"

definition chunk :: "env \<Rightarrow> state \<Rightarrow> jsstring \<Rightarrow> jsstring option \<Rightarrow> int \<Rightarrow> jsstring list \<times> state" where
  "chunk e st code languageId maxChunkSize =
     (case languageId of
        None \<Rightarrow> (simpleChunk code maxChunkSize, st)
      | Some l \<Rightarrow>
          if parserReady e \<and> l \<noteq> [] then
            (case loadLanguage e st l of
               (False, st1) \<Rightarrow> (simpleChunk code maxChunkSize, st1)
             | (True, st1) \<Rightarrow>
                 (case parse e l code of
                    None \<Rightarrow> (simpleChunk code maxChunkSize, st1)
                  | Some rootNode \<Rightarrow>
                      let chunks = visitNode rootNode [] maxChunkSize
                      in if length chunks > 0 then (chunks, st1)
                         else (simpleChunk code maxChunkSize, st1)))
          else (simpleChunk code maxChunkSize, st))"

subsection \<open>MemoryService\<close>

text \<open>
  \<^verbatim>\<open>init\<close> opens the table \<^verbatim>\<open>code_context\<close> of the database on disk, or creates it
  holding the sentinel when the database has none.
\<close>

definition init :: "table option \<Rightarrow> state \<Rightarrow> state" where
  "init onDisk st =
     st\<lparr>table := Some (case onDisk of Some t \<Rightarrow> t | None \<Rightarrow> [sentinel])\<rparr>"

text \<open>
  The loop of \<^verbatim>\<open>addDocument\<close> over the chunks: a whitespace-only chunk is skipped,
  any other is embedded (the call is logged) and becomes a record with a fresh id;
  a rejected embedding ends the loop with the error, and the records are dropped.
\<close>

fun embedChunks :: "env \<Rightarrow> jsstring \<Rightarrow> jsstring list \<Rightarrow> state \<Rightarrow> row list \<Rightarrow> state \<times> (error + row list)" where
  "embedChunks e filepath [] st records = (st, Inr records)"
| "embedChunks e filepath (c # cs) st records =
     (if length (trim c) = 0 then embedChunks e filepath cs st records
      else
        let st1 = st\<lparr>embedCalls := embedCalls st @ [c]\<rparr>
        in (case getEmbedding e c of
              Inl err \<Rightarrow> (st1, Inl err)
            | Inr v \<Rightarrow>
                embedChunks e filepath cs (st1\<lparr>uuidCount := Suc (uuidCount st1)\<rparr>)
                  (records @ [\<lparr>rec_vector = v, rec_text = c, rec_filepath = filepath,
                               rec_id = uuidv4 e (uuidCount st1)\<rparr>])))"

text \<open>
  The chunk selection of \<^verbatim>\<open>addDocument\<close> (its \<^verbatim>\<open>if\<close> on \<^verbatim>\<open>languageId\<close>, with the
  size 500 of the source): the chunks, and the state after the grammar was loaded.
\<close>

definition documentChunks :: "env \<Rightarrow> state \<Rightarrow> jsstring \<Rightarrow> jsstring option \<Rightarrow> jsstring list \<times> state" where
  "documentChunks e st text languageId =
     (case languageId of
        None \<Rightarrow> (simpleChunk text 500, st)
      | Some l \<Rightarrow>
          if l \<noteq> [] \<and> isLanguageSupported l then chunk e st text (Some l) 500
          else (simpleChunk text 500, st))"

text \<open>
  \<^verbatim>\<open>addDocument(text, filepath, languageId?)\<close>: the new state, and the error or
  \<^verbatim>\<open>chunksCreated\<close>. \<^verbatim>\<open>this.table?.add\<close> does nothing without a table.
\<close>

definition addDocument :: "env \<Rightarrow> state \<Rightarrow> jsstring \<Rightarrow> jsstring \<Rightarrow> jsstring option \<Rightarrow> state \<times> (error + nat)" where
  "addDocument e st text filepath languageId =
     (if trim text = [] then (st, Inr 0)
      else
        let (chunks, st1) = documentChunks e st text languageId
        in (case embedChunks e filepath chunks st1 [] of
              (st2, Inl err) \<Rightarrow> (st2, Inl err)
            | (st2, Inr records) \<Rightarrow>
                if length records > 0
                then (st2\<lparr>table := map_option (table_add records) (table st2)\<rparr>,
                      Inr (length records))
                else (st2, Inr (length records))))"

definition search :: "env \<Rightarrow> state \<Rightarrow> jsstring \<Rightarrow> nat \<Rightarrow> state \<times> (error + row list)" where
  "search e st query limit =
     (let st1 = st\<lparr>embedCalls := embedCalls st @ [query]\<rparr>
      in (case getEmbedding e query of
            Inl err \<Rightarrow> (st1, Inl err)
          | Inr queryVector \<Rightarrow>
              (st1, Inr (case table st1 of
                           None \<Rightarrow> []
                         | Some t \<Rightarrow> table_search e queryVector limit t))))"

text \<open>The \<^verbatim>\<open>{id, text, filepath}\<close> objects \<^verbatim>\<open>getFileChunks\<close> returns.\<close>

record file_chunk =
  chunk_id :: jsstring
  chunk_text :: jsstring
  chunk_filepath :: jsstring

definition getFileChunks :: "state \<Rightarrow> jsstring \<Rightarrow> file_chunk list" where
  "getFileChunks st filepath =
     (case table st of
        None \<Rightarrow> []
      | Some allRecords \<Rightarrow>
          map (\<lambda>r. \<lparr>chunk_id = rec_id r, chunk_text = rec_text r, chunk_filepath = rec_filepath r\<rparr>)
            (filter (\<lambda>r. rec_filepath r = filepath) allRecords))"

definition getFileChunksWithVectors :: "state \<Rightarrow> jsstring \<Rightarrow> row list" where
  "getFileChunksWithVectors st filepath =
     (case table st of
        None \<Rightarrow> []
      | Some allRecords \<Rightarrow>
          map (\<lambda>r. \<lparr>rec_vector = rec_vector r, rec_text = rec_text r,
                    rec_filepath = rec_filepath r, rec_id = rec_id r\<rparr>)
            (filter (\<lambda>r. rec_filepath r = filepath) allRecords))"

text \<open>
  The deletion loops of \<^verbatim>\<open>clearAllIndexes\<close> and \<^verbatim>\<open>deleteFolderIndex\<close>: one
  \<^verbatim>\<open>delete\<close> per id, in order; a rejected delete ends the loop and leaves the table as
  the deletes before it made it.
\<close>

definition id_filter :: "jsstring \<Rightarrow> jsstring" where
  "id_filter i = js ''id = '' @ [quote] @ i @ [quote]"

fun delete_each :: "jsstring list \<Rightarrow> table \<Rightarrow> table \<times> (error + unit)" where
  "delete_each [] t = (t, Inr ())"
| "delete_each (i # is) t =
     (case table_delete (id_filter i) t of
        Inl err \<Rightarrow> (t, Inl err)
      | Inr t' \<Rightarrow> delete_each is t')"

definition clearAllIndexes :: "state \<Rightarrow> state \<times> (error + unit)" where
  "clearAllIndexes st =
     (case table st of
        None \<Rightarrow> (st, Inr ())
      | Some allRecords \<Rightarrow>
          let idsToDelete = map rec_id (filter (\<lambda>r. rec_filepath r \<noteq> js ''init'') allRecords)
          in (case delete_each idsToDelete allRecords of
                (t', res) \<Rightarrow> (st\<lparr>table := Some t'\<rparr>, res)))"

definition deleteFolderIndex :: "env \<Rightarrow> state \<Rightarrow> jsstring \<Rightarrow> state \<times> (error + nat)" where
  "deleteFolderIndex e st folderPath =
     (case table st of
        None \<Rightarrow> (st, Inr 0)
      | Some allRecords \<Rightarrow>
          let filesToDelete = filter (\<lambda>r. dirname e (rec_filepath r) = folderPath) allRecords
          in (case delete_each (map rec_id filesToDelete) allRecords of
                (t', Inl err) \<Rightarrow> (st\<lparr>table := Some t'\<rparr>, Inl err)
              | (t', Inr _) \<Rightarrow> (st\<lparr>table := Some t'\<rparr>, Inr (length filesToDelete))))"


section \<open>FolderIndexer\<close>

text \<open>
  \<^verbatim>\<open>IndexingOptions\<close>, each field optional: in an \<^verbatim>\<open>options\<close> argument
  (\<^verbatim>\<open>Partial<IndexingOptions>\<close>) \<open>None\<close> is a key that is absent, in the values read
  from the settings and in the merged \<^verbatim>\<open>opts\<close> it is \<^verbatim>\<open>undefined\<close>. The two numbers
  are taken as integers.
\<close>

record options =
  maxFileSize :: "int option"
  excludePatterns :: "jsstring list option"
  includeExtensions :: "jsstring list option"
  maxFiles :: "int option"

definition DEFAULT_OPTIONS :: options where
  "DEFAULT_OPTIONS =
     \<lparr>maxFileSize = Some (1 * 1024 * 1024),
      excludePatterns = Some
        [js ''**/node_modules/**'', js ''**/dist/**'', js ''**/build/**'', js ''**/.git/**'',
         js ''**/.vscode/**'', js ''**/coverage/**'', js ''**/*.min.js'', js ''**/*.bundle.js'',
         js ''**/*.map''],
      includeExtensions = Some
        [js ''.ts'', js ''.tsx'', js ''.js'', js ''.jsx'', js ''.py'', js ''.java'', js ''.c'',
         js ''.cpp'', js ''.h'', js ''.go'', js ''.rs'', js ''.rb'', js ''.php'', js ''.cs'',
         js ''.swift'', js ''.kt''],
      maxFiles = Some 500\<rparr>"

text \<open>The object spread \<^verbatim>\<open>{...a, ...b}\<close>: a key of \<open>b\<close> wins where \<open>b\<close> has it.\<close>

definition spread :: "options \<Rightarrow> options \<Rightarrow> options" where
  "spread a b =
     \<lparr>maxFileSize = (case maxFileSize b of Some v \<Rightarrow> Some v | None \<Rightarrow> maxFileSize a),
      excludePatterns = (case excludePatterns b of Some v \<Rightarrow> Some v | None \<Rightarrow> excludePatterns a),
      includeExtensions = (case includeExtensions b of Some v \<Rightarrow> Some v | None \<Rightarrow> includeExtensions a),
      maxFiles = (case maxFiles b of Some v \<Rightarrow> Some v | None \<Rightarrow> maxFiles a)\<rparr>"

text \<open>
  What the scanner calls and does not define: the four settings under
  \<^verbatim>\<open>agentMemory.indexing\<close> as \<^verbatim>\<open>config.get\<close> returns them, \<^verbatim>\<open>workspace.findFiles\<close> for a
  folder and a glob, the size \<^verbatim>\<open>fs.promises.stat\<close> reports (\<open>None\<close> when it rejects),
  \<^verbatim>\<open>path.relative\<close>, and \<^verbatim>\<open>RegExp\<close>: the \<^verbatim>\<open>test\<close> function of the expression a source
  text compiles to (\<open>None\<close> when the constructor throws). \<^verbatim>\<open>findFiles\<close> is taken to
  resolve.
\<close>

record fs_env =
  configGet :: options
  findFiles :: "jsstring \<Rightarrow> jsstring \<Rightarrow> jsstring list"
  stat_size :: "jsstring \<Rightarrow> nat option"
  path_relative :: "jsstring \<Rightarrow> jsstring \<Rightarrow> jsstring"
  regexp_test :: "jsstring \<Rightarrow> (jsstring \<Rightarrow> bool) option"

definition star :: jschar where
  "star = 42"

text \<open>\<^verbatim>\<open>pattern.replace(/\*\*/g, '.*')\<close> and \<^verbatim>\<open>.replace(/\*/g, '[^/]*')\<close>.\<close>

fun replace_double_star :: "jsstring \<Rightarrow> jsstring" where
  "replace_double_star (a # b # cs) =
     (if a = star \<and> b = star then js ''.*'' @ replace_double_star cs
      else a # replace_double_star (b # cs))"
| "replace_double_star cs = cs"

definition replace_star :: "jsstring \<Rightarrow> jsstring" where
  "replace_star s = concat (map (\<lambda>c. if c = star then js ''[^/]*'' else [c]) s)"

definition matchesPattern :: "fs_env \<Rightarrow> jsstring \<Rightarrow> jsstring \<Rightarrow> jsstring \<Rightarrow> error + bool" where
  "matchesPattern fe filePath basePath pattern =
     (let relativePath = path_relative fe basePath filePath;
          normalizedPattern = replace_star (replace_double_star pattern)
      in (case regexp_test fe normalizedPattern of
            None \<Rightarrow> Inl (SyntaxError normalizedPattern)
          | Some test \<Rightarrow> Inr (test relativePath)))"

text \<open>\<^verbatim>\<open>excludeGlobs.some(...)\<close>: stops at the first glob that matches.\<close>

fun shouldExclude :: "fs_env \<Rightarrow> jsstring \<Rightarrow> jsstring \<Rightarrow> jsstring list \<Rightarrow> error + bool" where
  "shouldExclude fe filePath folderPath [] = Inr False"
| "shouldExclude fe filePath folderPath (globPattern # globs) =
     (case matchesPattern fe filePath folderPath globPattern of
        Inl err \<Rightarrow> Inl err
      | Inr True \<Rightarrow> Inr True
      | Inr False \<Rightarrow> shouldExclude fe filePath folderPath globs)"

text \<open>
  The two comparisons with a merged option; a comparison with \<^verbatim>\<open>undefined\<close> is false.
\<close>

definition sizeExceeds :: "nat \<Rightarrow> int option \<Rightarrow> bool" where
  "sizeExceeds sz limit = (case limit of None \<Rightarrow> False | Some m \<Rightarrow> int sz > m)"

definition maxReached :: "jsstring list \<Rightarrow> int option \<Rightarrow> bool" where
  "maxReached files limit = (case limit of None \<Rightarrow> False | Some m \<Rightarrow> int (length files) \<ge> m)"

text \<open>
  The inner loop over the files found for one extension, and the outer loop over the
  extensions; \<open>files\<close> is the array built so far. A \<^verbatim>\<open>break\<close> returns it.
\<close>

fun scanFound :: "fs_env \<Rightarrow> jsstring \<Rightarrow> jsstring list \<Rightarrow> options \<Rightarrow> jsstring list \<Rightarrow> jsstring list \<Rightarrow> error + jsstring list" where
  "scanFound fe folderPath globs opts [] files = Inr files"
| "scanFound fe folderPath globs opts (filePath # rest) files =
     (case shouldExclude fe filePath folderPath globs of
        Inl err \<Rightarrow> Inl err
      | Inr True \<Rightarrow> scanFound fe folderPath globs opts rest files
      | Inr False \<Rightarrow>
          (case stat_size fe filePath of
             None \<Rightarrow> scanFound fe folderPath globs opts rest files
           | Some sz \<Rightarrow>
               if sizeExceeds sz (maxFileSize opts) then scanFound fe folderPath globs opts rest files
               else if maxReached (files @ [filePath]) (maxFiles opts) then Inr (files @ [filePath])
               else scanFound fe folderPath globs opts rest (files @ [filePath])))"

fun scanExtensions :: "fs_env \<Rightarrow> jsstring \<Rightarrow> jsstring list \<Rightarrow> options \<Rightarrow> jsstring list \<Rightarrow> jsstring list \<Rightarrow> error + jsstring list" where
  "scanExtensions fe folderPath globs opts [] files = Inr files"
| "scanExtensions fe folderPath globs opts (ext # exts) files =
     (case scanFound fe folderPath globs opts (findFiles fe folderPath (js ''**/*'' @ ext)) files of
        Inl err \<Rightarrow> Inl err
      | Inr files' \<Rightarrow>
          if maxReached files' (maxFiles opts) then Inr files'
          else scanExtensions fe folderPath globs opts exts files')"

text \<open>
  \<^verbatim>\<open>getFilesToIndex\<close>. The settings object \<^verbatim>\<open>userOptions\<close> has all four keys, so
  it replaces the defaults whole in \<^verbatim>\<open>{...DEFAULT_OPTIONS, ...userOptions, ...options}\<close>;
  \<^verbatim>\<open>undefined.map\<close> and a \<^verbatim>\<open>for ... of undefined\<close> throw a TypeError.
\<close>

definition mergedOptions :: "fs_env \<Rightarrow> options \<Rightarrow> options" where
  "mergedOptions fe opts = spread (configGet fe) opts"

definition getFilesToIndex :: "fs_env \<Rightarrow> jsstring \<Rightarrow> options \<Rightarrow> error + jsstring list" where
  "getFilesToIndex fe folderPath opts_arg =
     (let opts = mergedOptions fe opts_arg
      in (case excludePatterns opts of
            None \<Rightarrow> Inl TypeError
          | Some globs \<Rightarrow>
              (case includeExtensions opts of
                 None \<Rightarrow> Inl TypeError
               | Some exts \<Rightarrow> scanExtensions fe folderPath globs opts exts [])))"

text \<open>
  The result of \<^verbatim>\<open>validateIndexingOperation\<close>. A message is kept as its template and
  the values in its holes: the file count and the maximum for \<^verbatim>\<open>Too many files\<close>, the
  file count and the bytes summed over the sample for \<^verbatim>\<open>Ready to index\<close> (the
  megabyte estimate printed from them is floating-point arithmetic).
\<close>

datatype message = NoFilesFound | TooManyFiles nat int | ReadyToIndex nat nat

record validation =
  valid :: bool
  message :: message
  fileCount :: nat

definition sampleSize :: "fs_env \<Rightarrow> jsstring list \<Rightarrow> nat" where
  "sampleSize fe files =
     sum_list (map (\<lambda>f. case stat_size fe f of None \<Rightarrow> 0 | Some sz \<Rightarrow> sz) (take 100 files))"

definition validateIndexingOperation :: "fs_env \<Rightarrow> jsstring \<Rightarrow> options \<Rightarrow> error + validation" where
  "validateIndexingOperation fe folderPath opts_arg =
     (case getFilesToIndex fe folderPath opts_arg of
        Inl err \<Rightarrow> Inl err
      | Inr files \<Rightarrow>
          let opts = spread DEFAULT_OPTIONS opts_arg
          in if length files = 0
             then Inr \<lparr>valid = False, message = NoFilesFound, fileCount = 0\<rparr>
             else (case maxFiles opts of
                     Some m \<Rightarrow>
                       if int (length files) > m
                       then Inr \<lparr>valid = False, message = TooManyFiles (length files) m,
                                 fileCount = length files\<rparr>
                       else Inr \<lparr>valid = True, message = ReadyToIndex (length files) (sampleSize fe files),
                                 fileCount = length files\<rparr>
                   | None \<Rightarrow>
                       Inr \<lparr>valid = True, message = ReadyToIndex (length files) (sampleSize fe files),
                            fileCount = length files\<rparr>))"


section \<open>Auxiliary notions of the statements\<close>

text \<open>The rows a query returns: those of the table, none without a table.\<close>

definition allRecords :: "state \<Rightarrow> row list" where
  "allRecords st = (case table st of None \<Rightarrow> [] | Some t \<Rightarrow> t)"

text \<open>A file the scanner keeps: no exclude glob matches it and its size is known and within the limit.\<close>

definition accepted :: "fs_env \<Rightarrow> jsstring \<Rightarrow> jsstring list \<Rightarrow> options \<Rightarrow> jsstring \<Rightarrow> bool" where
  "accepted fe folder globs opts f \<longleftrightarrow>
     shouldExclude fe f folder globs = Inr False \<and>
     (case stat_size fe f of
        None \<Rightarrow> False
      | Some sz \<Rightarrow> \<not> sizeExceeds sz (maxFileSize opts))"


section \<open>A concrete world\<close>

text \<open>
  A small world to run the operations in: a parser that answers with a program of two
  function declarations, an embedding model that rejects the second function and
  maps every other text to a unit vector of the 384 dimensions (\<open>axis\<close>), numbered
  identifiers, the squared Euclidean distance, and a \<open>dirname\<close> that cuts a path at
  its last slash (\<^verbatim>\<open>.\<close> for a path without one), as \<^verbatim>\<open>path.dirname\<close> does for a
  path that does not end in a slash and has a directory part other than the root.
\<close>

definition axis :: "nat \<Rightarrow> vector" where
  "axis k = (replicate 384 0)[k := 1]"

definition example_tree :: node where
  "example_tree =
     Node (js ''program'') (js ''function f(){} function g(){}'')
       [Node (js ''function_declaration'') (js ''function f(){}'')
          [Node (js ''identifier'') (js ''f'') []],
        Node (js ''function_declaration'') (js ''function g(){}'') []]"

definition example_dirname :: "jsstring \<Rightarrow> jsstring" where
  "example_dirname p =
     (if 47 \<in> set p then rev (tl (dropWhile (\<lambda>c. c \<noteq> 47) (rev p))) else js ''.'')"

definition example_env :: env where
  "example_env =
     \<lparr>parserReady = True,
      languageLoad = (\<lambda>wasmFile. True),
      parse = (\<lambda>languageId code. Some example_tree),
      getEmbedding = (\<lambda>t. if t = js ''function g(){}''
                            then Inl (EmbeddingError (js ''model failed''))
                            else Inr (axis 0)),
      uuidv4 = (\<lambda>n. js ''uuid-'' @ replicate n 49),
      distance = (\<lambda>q v. sum_list (map (\<lambda>(a, b). (a - b) * (a - b)) (zip q v))),
      dirname = example_dirname\<rparr>"

definition initial_state :: state where
  "initial_state =
     \<lparr>table = None, loadedLanguages = [], currentLanguageId = None,
      embedCalls = [], uuidCount = 0\<rparr>"

text \<open>A table of the sentinel, a user record filed under \<^verbatim>\<open>init\<close>, and two files.\<close>

definition example_table :: table where
  "example_table =
     [sentinel,
      \<lparr>rec_vector = axis 0, rec_text = js ''notes'', rec_filepath = js ''init'', rec_id = js ''u1''\<rparr>,
      \<lparr>rec_vector = axis 1, rec_text = js ''let a'', rec_filepath = js ''/w/a.ts'', rec_id = js ''u2''\<rparr>,
      \<lparr>rec_vector = axis 2, rec_text = js ''let b'', rec_filepath = js ''/w/sub/b.ts'', rec_id = js ''u3''\<rparr>]"

text \<open>
  A regular-expression engine for the expressions that globs without further
  metacharacters translate to: a sequence of \<^verbatim>\<open>.\<close>, \<^verbatim>\<open>[^/]\<close> and plain characters,
  each possibly under a \<^verbatim>\<open>*\<close>. Every other source is rejected. \<^verbatim>\<open>test\<close> searches:
  the expression may match anywhere in the string.
\<close>

datatype rx_atom = AnyChar | NotSlash | Lit jschar

datatype rx_token = Atom rx_atom | Repeat

datatype rx_item = Once rx_atom | Many rx_atom

fun rx_tokens :: "jsstring \<Rightarrow> rx_token list option" where
  "rx_tokens [] = Some []"
| "rx_tokens (c # cs) =
     (if c = 91
        then (if take 3 cs = [94, 47, 93]
              then map_option ((#) (Atom NotSlash)) (rx_tokens (drop 3 cs)) else None)
      else if c = star then map_option ((#) Repeat) (rx_tokens cs)
      else if c = 46 then map_option ((#) (Atom AnyChar)) (rx_tokens cs)
      else if c \<in> set [36, 40, 41, 43, 63, 92, 93, 94, 123, 124, 125] then None
      else map_option ((#) (Atom (Lit c))) (rx_tokens cs))"

fun rx_items :: "rx_token list \<Rightarrow> rx_item list option" where
  "rx_items [] = Some []"
| "rx_items (Repeat # ts) = None"
| "rx_items (Atom a # Repeat # ts) = map_option ((#) (Many a)) (rx_items ts)"
| "rx_items (Atom a # ts) = map_option ((#) (Once a)) (rx_items ts)"

fun rx_atom_ok :: "rx_atom \<Rightarrow> jschar \<Rightarrow> bool" where
  "rx_atom_ok AnyChar c = (c \<noteq> 10 \<and> c \<noteq> 13 \<and> c \<noteq> 8232 \<and> c \<noteq> 8233)"
| "rx_atom_ok NotSlash c = (c \<noteq> 47)"
| "rx_atom_ok (Lit d) c = (c = d)"

fun rx_match_here :: "rx_item list \<Rightarrow> jsstring \<Rightarrow> bool" where
  "rx_match_here [] s = True"
| "rx_match_here (Once a # r) [] = False"
| "rx_match_here (Once a # r) (c # cs) = (rx_atom_ok a c \<and> rx_match_here r cs)"
| "rx_match_here (Many a # r) [] = rx_match_here r []"
| "rx_match_here (Many a # r) (c # cs) =
     (rx_match_here r (c # cs) \<or> (rx_atom_ok a c \<and> rx_match_here (Many a # r) cs))"

fun rx_search :: "rx_item list \<Rightarrow> jsstring \<Rightarrow> bool" where
  "rx_search r [] = rx_match_here r []"
| "rx_search r (c # cs) = (rx_match_here r (c # cs) \<or> rx_search r cs)"

definition example_regexp :: "jsstring \<Rightarrow> (jsstring \<Rightarrow> bool) option" where
  "example_regexp src =
     (case rx_tokens src of
        None \<Rightarrow> None
      | Some ts \<Rightarrow> map_option rx_search (rx_items ts))"

text \<open>
  A folder \<^verbatim>\<open>/w\<close>: five TypeScript files (one too large, one under
  \<^verbatim>\<open>node_modules\<close>, one that cannot be read) and two JavaScript files (one
  minified). Three files qualify: \<^verbatim>\<open>a.ts\<close>, \<^verbatim>\<open>b.ts\<close> and \<^verbatim>\<open>c.js\<close>.
\<close>

definition example_fs :: fs_env where
  "example_fs =
     \<lparr>configGet =
        \<lparr>maxFileSize = Some 1048576,
         excludePatterns = Some [js ''**/node_modules/**'', js ''**/*.min.js''],
         includeExtensions = Some [js ''.ts'', js ''.js''],
         maxFiles = Some 500\<rparr>,
      findFiles = (\<lambda>folder glob.
         if folder = js ''/w'' \<and> glob = js ''**/*.ts''
           then [js ''/w/a.ts'', js ''/w/big.ts'', js ''/w/x/node_modules/m.ts'',
                 js ''/w/gone.ts'', js ''/w/b.ts'']
         else if folder = js ''/w'' \<and> glob = js ''**/*.js''
           then [js ''/w/c.js'', js ''/w/lib/d.min.js'']
         else []),
      stat_size = map_of
        [(js ''/w/a.ts'', 10), (js ''/w/big.ts'', 2000000), (js ''/w/x/node_modules/m.ts'', 5),
         (js ''/w/b.ts'', 20), (js ''/w/c.js'', 30), (js ''/w/lib/d.min.js'', 40)],
      path_relative = (\<lambda>base p. drop (Suc (length base)) p),
      regexp_test = example_regexp\<rparr>"

definition no_options :: options where
  "no_options =
     \<lparr>maxFileSize = None, excludePatterns = None, includeExtensions = None, maxFiles = None\<rparr>"


section \<open>Facts about strings\<close>

lemma isWhiteSpace_newline: "isWhiteSpace newline"
  by (simp add: isWhiteSpace_def newline_def)

lemma split_lines_not_Nil: "split_lines s \<noteq> []"
  by (induction s) auto

lemma concat_split_lines:
  "concat (map (\<lambda>l. l @ [newline]) (split_lines s)) = s @ [newline]"
proof (induction s)
  case Nil
  show ?case by simp
next
  case (Cons c cs)
  obtain l ls where sp: "split_lines cs = l # ls"
    using split_lines_not_Nil [of cs] by (cases "split_lines cs") auto
  with Cons show ?case by auto
qed

lemma trimEnd_append_ws:
  "\<forall>c \<in> set w. isWhiteSpace c \<Longrightarrow> trimEnd (s @ w) = trimEnd s"
  by (simp add: trimEnd_def dropWhile_append)

lemma trim_Nil_iff: "trim s = [] \<longleftrightarrow> (\<forall>c \<in> set s. isWhiteSpace c)"
proof
  assume "trim s = []"
  then have "dropWhile isWhiteSpace (rev (dropWhile isWhiteSpace s)) = []"
    by (simp add: trim_def trimEnd_def trimStart_def)
  then have a: "\<forall>c \<in> set (dropWhile isWhiteSpace s). isWhiteSpace c"
    by (simp add: dropWhile_eq_Nil_conv)
  show "\<forall>c \<in> set s. isWhiteSpace c"
  proof
    fix c assume "c \<in> set s"
    then have "c \<in> set (takeWhile isWhiteSpace s) \<or> c \<in> set (dropWhile isWhiteSpace s)"
      by (metis Un_iff set_append takeWhile_dropWhile_id)
    with a show "isWhiteSpace c"
      by (auto dest: set_takeWhileD)
  qed
next
  assume "\<forall>c \<in> set s. isWhiteSpace c"
  then show "trim s = []"
    by (auto simp: trim_def trimEnd_def trimStart_def dest: set_dropWhileD)
qed

lemma nonWhiteSpace_append_ws:
  "\<forall>c \<in> set w. isWhiteSpace c \<Longrightarrow> nonWhiteSpace (s @ w) = nonWhiteSpace s"
  by (simp add: nonWhiteSpace_def)


section \<open>The line chunker keeps the text\<close>

lemma simpleChunk_step_concat:
  "simpleChunk_step maxSize line (chunks, cur) = (chunks', cur') \<Longrightarrow>
   concat chunks' @ cur' = concat chunks @ cur @ line @ [newline]"
  by (auto split: if_splits)

lemma fold_simpleChunk_step_concat:
  "fold (simpleChunk_step maxSize) lines (chunks, cur) = (chunks', cur') \<Longrightarrow>
   concat chunks' @ cur' = concat chunks @ cur @ concat (map (\<lambda>l. l @ [newline]) lines)"
proof (induction lines arbitrary: chunks cur)
  case Nil
  then show ?case by simp
next
  case (Cons line lines)
  obtain c1 r1 where st: "simpleChunk_step maxSize line (chunks, cur) = (c1, r1)"
    by (cases "simpleChunk_step maxSize line (chunks, cur)") auto
  from Cons.prems st have "fold (simpleChunk_step maxSize) lines (c1, r1) = (chunks', cur')"
    by simp
  from Cons.IH [OF this] have "concat chunks' @ cur' = (concat c1 @ r1) @ concat (map (\<lambda>l. l @ [newline]) lines)"
    by simp
  also have "concat c1 @ r1 = concat chunks @ cur @ line @ [newline]"
    using simpleChunk_step_concat [OF st] .
  finally show ?case by simp
qed

lemma simpleChunk_loop_concat:
  "simpleChunk_loop maxSize (split_lines text) = (chunks, cur) \<Longrightarrow>
   concat chunks @ cur = text @ [newline]"
  using fold_simpleChunk_step_concat [of maxSize "split_lines text" "[]" "[]" chunks cur]
  by (simp add: simpleChunk_loop_def concat_split_lines)

lemma simpleChunk_cases:
  "(\<exists>w. concat (simpleChunk text maxSize) @ w = text @ [newline] \<and> (\<forall>c \<in> set w. isWhiteSpace c))
   \<or> simpleChunk text maxSize = [text]"
proof -
  obtain chunks cur where lp: "simpleChunk_loop maxSize (split_lines text) = (chunks, cur)"
    by (cases "simpleChunk_loop maxSize (split_lines text)") auto
  note cc = simpleChunk_loop_concat [OF lp]
  show ?thesis
  proof (cases "trim cur = []")
    case False
    then have "simpleChunk text maxSize = chunks @ [cur]"
      by (simp add: simpleChunk_def lp)
    with cc have "concat (simpleChunk text maxSize) @ [] = text @ [newline]"
      by simp
    then show ?thesis by (metis empty_iff list.set(1))
  next
    case True
    then have ws: "\<forall>c \<in> set cur. isWhiteSpace c"
      by (simp add: trim_Nil_iff)
    show ?thesis
    proof (cases "chunks = []")
      case True
      with \<open>trim cur = []\<close> have "simpleChunk text maxSize = [text]"
        by (simp add: simpleChunk_def lp)
      then show ?thesis by simp
    next
      case False
      with \<open>trim cur = []\<close> have "simpleChunk text maxSize = chunks"
        by (simp add: simpleChunk_def lp)
      with cc ws show ?thesis by auto
    qed
  qed
qed

text \<open>
  C3. For every text and every maxSize, the concatenation of the chunks of the
  line chunker equals the text up to trailing whitespace (the line feeds the
  chunker appends are whitespace), and its non-whitespace characters are those
  of the text, in the same order: nothing is dropped or reordered.
\<close>

theorem simpleChunk_preserves_text:
  "trimEnd (concat (simpleChunk text maxSize)) = trimEnd text \<and>
   nonWhiteSpace (concat (simpleChunk text maxSize)) = nonWhiteSpace text"
proof -
  have nl: "trimEnd (text @ [newline]) = trimEnd text"
      "nonWhiteSpace (text @ [newline]) = nonWhiteSpace text"
    using trimEnd_append_ws [of "[newline]" "text"] nonWhiteSpace_append_ws [of "[newline]" "text"]
    by (simp_all add: isWhiteSpace_newline)
  from simpleChunk_cases [of "text" maxSize] show ?thesis
  proof
    assume "\<exists>w. concat (simpleChunk text maxSize) @ w = text @ [newline]
                \<and> (\<forall>c \<in> set w. isWhiteSpace c)"
    then obtain w where w: "concat (simpleChunk text maxSize) @ w = text @ [newline]"
        and ws: "\<forall>c \<in> set w. isWhiteSpace c"
      by blast
    have "trimEnd (concat (simpleChunk text maxSize)) = trimEnd (concat (simpleChunk text maxSize) @ w)"
      using trimEnd_append_ws [OF ws] by simp
    moreover have "nonWhiteSpace (concat (simpleChunk text maxSize))
        = nonWhiteSpace (concat (simpleChunk text maxSize) @ w)"
      using nonWhiteSpace_append_ws [OF ws] by simp
    ultimately show ?thesis
      by (simp add: w nl)
  next
    assume "simpleChunk text maxSize = [text]"
    then show ?thesis by simp
  qed
qed


section \<open>Evaluating literals\<close>

lemma trim_example_text: "trim (js ''function f(){} function g(){}'') \<noteq> []"
  by (simp add: trim_def trimStart_def trimEnd_def js_def isWhiteSpace_def)

lemma trim_example_g: "trim (js ''function g(){}'') \<noteq> []"
  by (simp add: trim_def trimStart_def trimEnd_def js_def isWhiteSpace_def)

lemma simpleChunk_example:
  "simpleChunk (js ''ab'' @ [newline] @ js ''cd'') 3
     = [js ''ab'' @ [newline], js ''cd'' @ [newline]]"
  by (simp add: simpleChunk_def simpleChunk_loop_def js_def newline_def
        trim_def trimStart_def trimEnd_def isWhiteSpace_def)

lemma documentChunks_example:
  "fst (documentChunks example_env (init None initial_state)
     (js ''function f(){} function g(){}'') (Some (js ''typescript'')))
   = [js ''function f(){}'', js ''function g(){}'']"
  by (simp add: documentChunks_def isLanguageSupported_def LANGUAGE_CONFIG_def chunk_def
        example_env_def loadLanguage_def init_def initial_state_def example_tree_def
        blockTypes_def js_def)


section \<open>The structural chunker emits a small block whole\<close>








section \<open>addDocument\<close>

lemma loadLanguage_table: "loadLanguage e st l = (b, st') \<Longrightarrow> table st' = table st"
  by (auto simp: loadLanguage_def split: if_splits option.splits)

lemma chunk_table: "chunk e st code languageId m = (cs, st') \<Longrightarrow> table st' = table st"
  by (auto simp: chunk_def Let_def split: if_splits option.splits prod.splits bool.splits
        dest: loadLanguage_table)

lemma documentChunks_table:
  "documentChunks e st code languageId = (cs, st') \<Longrightarrow> table st' = table st"
  by (auto simp: documentChunks_def split: if_splits option.splits dest: chunk_table)

lemma embedChunks_table:
  "embedChunks e fp cs st recs = (st', r) \<Longrightarrow> table st' = table st"
proof (induction cs arbitrary: st recs)
  case Nil
  then show ?case by simp
next
  case (Cons c cs)
  then show ?case
    by (auto simp: Let_def split: if_splits sum.splits)
qed

lemma embedChunks_fails:
  "c \<in> set cs \<Longrightarrow> trim c \<noteq> [] \<Longrightarrow> getEmbedding e c = Inl err \<Longrightarrow>
   \<exists>st' err' c'. embedChunks e fp cs st recs = (st', Inl err') \<and> c' \<in> set cs \<and> trim c' \<noteq> []
      \<and> getEmbedding e c' = Inl err'"
proof (induction cs arbitrary: st recs)
  case Nil
  then show ?case by simp
next
  case (Cons d ds)
  show ?case
  proof (cases "trim d = []")
    case True
    with Cons.prems have "c \<in> set ds" by auto
    from Cons.IH [OF this Cons.prems(2,3)] True show ?thesis
      by simp blast
  next
    case False
    show ?thesis
    proof (cases "getEmbedding e d")
      case (Inl a)
      with False show ?thesis by (auto simp: Let_def)
    next
      case (Inr v)
      with Cons.prems have "c \<in> set ds" by auto
      from Cons.IH [OF this Cons.prems(2,3)] False Inr show ?thesis
        by (simp add: Let_def) blast
    qed
  qed
qed

text \<open>
  Every call of addDocument leaves the table as it was or appends, in one
  \<^verbatim>\<open>add\<close>, as many records as it reports; after an error the table is as it was.
\<close>

lemma addDocument_table:
  assumes "addDocument e st text filepath languageId = (st', res)"
  shows "(case res of
            Inl err \<Rightarrow> table st' = table st
          | Inr n \<Rightarrow> \<exists>records. length records = n \<and>
                     table st' = (if n > 0 then map_option (table_add records) (table st)
                                  else table st))"
proof (cases "trim text = []")
  case True
  with assms show ?thesis by (auto simp: addDocument_def)
next
  case False
  obtain cs st1 where dc: "documentChunks e st text languageId = (cs, st1)"
    by (cases "documentChunks e st text languageId") auto
  obtain st2 r where ec: "embedChunks e filepath cs st1 [] = (st2, r)"
    by (cases "embedChunks e filepath cs st1 []") auto
  have t2: "table st2 = table st"
    using embedChunks_table [OF ec] documentChunks_table [OF dc] by simp
  show ?thesis
  proof (cases r)
    case (Inl err)
    with assms False dc ec t2 show ?thesis by (auto simp: addDocument_def)
  next
    case (Inr records)
    with assms False dc ec t2 show ?thesis
      by (auto simp: addDocument_def split: if_splits)
  qed
qed

text \<open>
  C9. For a text that is empty or consists of whitespace only, addDocument returns
  chunksCreated = 0 and the state it was called in: the table is untouched, no text
  was handed to the embedding service, no grammar was loaded and no id was drawn.
\<close>

theorem addDocument_blank_text:
  assumes "\<forall>c \<in> set text. isWhiteSpace c"
  shows "addDocument e st text filepath languageId = (st, Inr 0)"
  using assms by (simp add: addDocument_def trim_Nil_iff)

theorem addDocument_blank_text_witness:
  "addDocument example_env (init None initial_state) [32, 9, 10, 32] (js ''/w/a.ts'')
     (Some (js ''typescript'')) = (init None initial_state, Inr 0)"
proof -
  have "\<forall>c \<in> set [32, 9, 10, 32 :: jschar]. isWhiteSpace c"
    by (simp add: isWhiteSpace_def)
  from addDocument_blank_text [OF this] show ?thesis .
qed

text \<open>
  C1. If the embedding service rejects one of the chunks addDocument embeds (a chunk
  of the document that is not whitespace only), addDocument ends with an error that
  the embedding service raised for a chunk of the document, and the table is the one
  before the call: nothing was inserted.
\<close>

theorem addDocument_embedding_failure:
  assumes "trim text \<noteq> []"
    and "c \<in> set (fst (documentChunks e st text languageId))"
    and "trim c \<noteq> []"
    and "getEmbedding e c = Inl err"
  shows "\<exists>st' err' c'. addDocument e st text filepath languageId = (st', Inl err')
           \<and> c' \<in> set (fst (documentChunks e st text languageId))
           \<and> getEmbedding e c' = Inl err'
           \<and> table st' = table st"
proof -
  obtain cs st1 where dc: "documentChunks e st text languageId = (cs, st1)"
    by (cases "documentChunks e st text languageId") auto
  with assms(2) have "c \<in> set cs" by simp
  from embedChunks_fails [OF this assms(3,4), of filepath st1 "[]"]
  obtain st' err' c' where ec: "embedChunks e filepath cs st1 [] = (st', Inl err')"
      and c': "c' \<in> set cs" "getEmbedding e c' = Inl err'"
    by blast
  have "table st' = table st"
    using embedChunks_table [OF ec] documentChunks_table [OF dc] by simp
  moreover have "addDocument e st text filepath languageId = (st', Inl err')"
    using assms(1) by (simp add: addDocument_def dc ec)
  ultimately show ?thesis
    using c' dc by auto
qed

theorem addDocument_embedding_failure_witness:
  "snd (addDocument example_env (init None initial_state)
          (js ''function f(){} function g(){}'') (js ''/w/a.ts'') (Some (js ''typescript'')))
     = Inl (EmbeddingError (js ''model failed'')) \<and>
   table (fst (addDocument example_env (init None initial_state)
          (js ''function f(){} function g(){}'') (js ''/w/a.ts'') (Some (js ''typescript''))))
     = Some [sentinel]"
proof -
  have g: "js ''function g(){}'' \<in> set (fst (documentChunks example_env (init None initial_state)
      (js ''function f(){} function g(){}'') (Some (js ''typescript''))))"
    by (simp add: documentChunks_example)
  have rej: "getEmbedding example_env (js ''function g(){}'') = Inl (EmbeddingError (js ''model failed''))"
    by (simp add: example_env_def)
  from addDocument_embedding_failure [OF trim_example_text g trim_example_g rej, of "js ''/w/a.ts''"]
  obtain st' err' c' where
      r: "addDocument example_env (init None initial_state)
            (js ''function f(){} function g(){}'') (js ''/w/a.ts'') (Some (js ''typescript''))
          = (st', Inl err')"
      and e: "getEmbedding example_env c' = Inl err'"
      and t: "table st' = table (init None initial_state)"
    by blast
  from e have "err' = EmbeddingError (js ''model failed'')"
    by (simp add: example_env_def split: if_splits)
  with r t show ?thesis
    by (simp add: init_def)
qed


section \<open>Reading the store\<close>

lemma row_rebuild:
  "\<lparr>rec_vector = rec_vector r, rec_text = rec_text r,
    rec_filepath = rec_filepath r, rec_id = rec_id r\<rparr> = (r :: row)"
  by (cases r) simp

lemma fresh_table: "table (init None initial_state) = Some [sentinel]"
  by (simp add: init_def)

lemma stored_table: "table (init (Some t) initial_state) = Some t"
  by (simp add: init_def)

lemma init_differs_from_a: "js ''init'' \<noteq> js ''/w/a.ts''"
  by (simp add: js_def)

text \<open>
  C6, as the code has it. getFileChunksWithVectors returns exactly the records whose
  filepath equals the argument, in table order, and getFileChunks returns their
  id, text and filepath; neither filters the sentinel. So for every argument other
  than "init" the sentinel is not among the records returned and no returned chunk
  carries the filepath "init".
\<close>

theorem getFileChunks_exact_filepath:
  "getFileChunksWithVectors st fp = filter (\<lambda>r. rec_filepath r = fp) (allRecords st) \<and>
   getFileChunks st fp =
     map (\<lambda>r. \<lparr>chunk_id = rec_id r, chunk_text = rec_text r, chunk_filepath = rec_filepath r\<rparr>)
       (filter (\<lambda>r. rec_filepath r = fp) (allRecords st)) \<and>
   (fp \<noteq> js ''init'' \<longrightarrow>
      sentinel \<notin> set (getFileChunksWithVectors st fp) \<and>
      (\<forall>c \<in> set (getFileChunks st fp). chunk_filepath c \<noteq> js ''init''))"
  by (auto simp: getFileChunksWithVectors_def getFileChunks_def allRecords_def sentinel_def
        row_rebuild split: option.splits)

theorem getFileChunks_exact_filepath_witness:
  "getFileChunksWithVectors (init (Some example_table) initial_state) (js ''/w/a.ts'')
     = [\<lparr>rec_vector = axis 1, rec_text = js ''let a'', rec_filepath = js ''/w/a.ts'',
         rec_id = js ''u2''\<rparr>] \<and>
   getFileChunks (init (Some example_table) initial_state) (js ''/w/a.ts'')
     = [\<lparr>chunk_id = js ''u2'', chunk_text = js ''let a'', chunk_filepath = js ''/w/a.ts''\<rparr>] \<and>
   sentinel \<notin> set (getFileChunksWithVectors (init (Some example_table) initial_state) (js ''/w/a.ts''))"
proof -
  have rows: "filter (\<lambda>r. rec_filepath r = js ''/w/a.ts'')
                (allRecords (init (Some example_table) initial_state))
      = [\<lparr>rec_vector = axis 1, rec_text = js ''let a'', rec_filepath = js ''/w/a.ts'',
          rec_id = js ''u2''\<rparr>]"
    by (simp add: allRecords_def stored_table example_table_def sentinel_def js_def)
  have ne: "sentinel \<noteq> \<lparr>rec_vector = axis 1, rec_text = js ''let a'',
      rec_filepath = js ''/w/a.ts'', rec_id = js ''u2''\<rparr>"
    by (simp add: sentinel_def js_def)
  show ?thesis
    using getFileChunks_exact_filepath
      [of "init (Some example_table) initial_state" "js ''/w/a.ts''"] init_differs_from_a ne
    by (simp add: rows)
qed

text \<open>
  The claim C6 as stated fails: on the table init creates, which holds only the
  sentinel, both functions return the sentinel for the argument "init".
\<close>

theorem getFileChunks_sentinel_counterexample:
  "sentinel \<in> set (getFileChunksWithVectors (init None initial_state) (js ''init'')) \<and>
   \<lparr>chunk_id = js ''0'', chunk_text = js ''init'', chunk_filepath = js ''init''\<rparr>
     \<in> set (getFileChunks (init None initial_state) (js ''init''))"
  by (simp add: getFileChunksWithVectors_def getFileChunks_def fresh_table sentinel_def)

text \<open>
  C7 fails on the code: search returns what the store's nearest-neighbour query
  returns, and the sentinel is a row like any other. On the table init creates, a
  search with limit 3 returns the sentinel.
\<close>

theorem search_returns_sentinel:
  "snd (search example_env (init None initial_state) (js ''foo'') 3) = Inr [sentinel]"
  by (simp add: search_def Let_def table_search_def init_def example_env_def js_def)


text \<open>
  The same holds in every world: on the table init creates, any search whose query
  is embedded and whose limit is at least 1 returns the sentinel alone.
\<close>

lemma search_fresh_table:
  assumes "getEmbedding e query = Inr v" and "0 < limit"
  shows "snd (search e (init None st) query limit) = Inr [sentinel]"
proof -
  obtain k where "limit = Suc k"
    using assms(2) by (cases limit) auto
  with assms(1) show ?thesis
    by (simp add: search_def Let_def table_search_def init_def)
qed


section \<open>Deleting from the store\<close>

lemma sql_literal_plain: "quote \<notin> set s \<Longrightarrow> sql_literal (s @ [quote]) = Some s"
proof (induction s)
  case Nil
  show ?case by simp
next
  case (Cons c cs)
  then obtain d ds where "cs @ [quote] = d # ds"
    by (cases "cs @ [quote]") auto
  with Cons show ?case by auto
qed

lemma strip_prefix_append: "strip_prefix pre (pre @ s) = Some s"
  by (simp add: strip_prefix_def)

lemma table_delete_id:
  "quote \<notin> set i \<Longrightarrow> table_delete (id_filter i) t = Inr (filter (\<lambda>r. rec_id r \<noteq> i) t)"
  using strip_prefix_append [of "js ''id = '' @ [quote]" "i @ [quote]"]
  by (simp add: table_delete_def id_filter_def sql_literal_plain)

lemma delete_each_ids:
  "\<forall>i \<in> set ids. quote \<notin> set i \<Longrightarrow>
   delete_each ids t = (filter (\<lambda>r. rec_id r \<notin> set ids) t, Inr ())"
proof (induction ids arbitrary: t)
  case Nil
  show ?case by simp
next
  case (Cons i ids)
  then show ?case
    by (simp add: table_delete_id conj_commute)
qed

lemma delete_each_selected:
  assumes "distinct (map rec_id t)" and "list_all (\<lambda>r. quote \<notin> set (rec_id r)) t"
  shows "delete_each (map rec_id (filter P t)) t = (filter (\<lambda>r. \<not> P r) t, Inr ())"
proof -
  have q: "\<forall>i \<in> set (map rec_id (filter P t)). quote \<notin> set i"
    using assms(2) by (auto simp: list_all_iff)
  have inj: "inj_on rec_id (set t)"
    using assms(1) by (simp add: distinct_map)
  have "filter (\<lambda>r. rec_id r \<notin> set (map rec_id (filter P t))) t = filter (\<lambda>r. \<not> P r) t"
  proof (rule filter_cong [OF refl])
    fix r assume r: "r \<in> set t"
    show "(rec_id r \<notin> set (map rec_id (filter P t))) = (\<not> P r)"
      using inj r by (auto dest: inj_onD)
  qed
  with delete_each_ids [OF q, of t] show ?thesis by simp
qed


lemma example_ids_distinct: "distinct (map rec_id example_table)"
  by (simp add: example_table_def sentinel_def js_def)

lemma example_ids_plain: "list_all (\<lambda>r. quote \<notin> set (rec_id r)) example_table"
  by (simp add: example_table_def sentinel_def js_def quote_def)

text \<open>
  C10. clearAllIndexes selects by filepath, not by the sentinel's id: in a table
  whose ids are distinct and free of quote characters (as the ids the service
  writes are: "0" and generated identifiers), a clear-all succeeds and leaves exactly
  the records whose filepath is "init", in their order; a user record filed under
  "init" stays, every record with another filepath is deleted.
\<close>

theorem clearAllIndexes_keeps_init_filepath:
  assumes "table st = Some t" and "distinct (map rec_id t)"
    and "list_all (\<lambda>r. quote \<notin> set (rec_id r)) t"
  shows "clearAllIndexes st =
     (st\<lparr>table := Some (filter (\<lambda>r. rec_filepath r = js ''init'') t)\<rparr>, Inr ())"
  using delete_each_selected [OF assms(2,3), of "\<lambda>r. rec_filepath r \<noteq> js ''init''"]
  by (simp add: clearAllIndexes_def assms(1))

theorem clearAllIndexes_keeps_init_filepath_witness:
  "clearAllIndexes (init (Some example_table) initial_state) =
     ((init (Some example_table) initial_state)
        \<lparr>table := Some
           [sentinel,
            \<lparr>rec_vector = axis 0, rec_text = js ''notes'', rec_filepath = js ''init'',
             rec_id = js ''u1''\<rparr>]\<rparr>,
      Inr ())"
proof -
  have kept: "filter (\<lambda>r. rec_filepath r = js ''init'') example_table
      = [sentinel,
         \<lparr>rec_vector = axis 0, rec_text = js ''notes'', rec_filepath = js ''init'',
          rec_id = js ''u1''\<rparr>]"
    by (simp add: example_table_def sentinel_def js_def)
  show ?thesis
    using clearAllIndexes_keeps_init_filepath
      [OF stored_table example_ids_distinct example_ids_plain]
    by (simp add: kept)
qed

text \<open>
  C8. In a table whose ids are distinct and free of quote characters,
  deleteFolderIndex deletes exactly the records whose filepath has the folder as its
  directory name (compared as strings) and returns their number; every other record,
  those in subfolders of the folder among them, stays.
\<close>

theorem deleteFolderIndex_exact_directory:
  assumes "table st = Some t" and "distinct (map rec_id t)"
    and "list_all (\<lambda>r. quote \<notin> set (rec_id r)) t"
  shows "deleteFolderIndex e st folderPath =
     (st\<lparr>table := Some (filter (\<lambda>r. dirname e (rec_filepath r) \<noteq> folderPath) t)\<rparr>,
      Inr (length (filter (\<lambda>r. dirname e (rec_filepath r) = folderPath) t)))"
  using delete_each_selected [OF assms(2,3), of "\<lambda>r. dirname e (rec_filepath r) = folderPath"]
  by (simp add: deleteFolderIndex_def assms(1))

theorem deleteFolderIndex_exact_directory_witness:
  "deleteFolderIndex example_env (init (Some example_table) initial_state) (js ''/w'') =
     ((init (Some example_table) initial_state)
        \<lparr>table := Some
           [sentinel,
            \<lparr>rec_vector = axis 0, rec_text = js ''notes'', rec_filepath = js ''init'',
             rec_id = js ''u1''\<rparr>,
            \<lparr>rec_vector = axis 2, rec_text = js ''let b'', rec_filepath = js ''/w/sub/b.ts'',
             rec_id = js ''u3''\<rparr>]\<rparr>,
      Inr 1)"
proof -
  have d: "dirname example_env = example_dirname"
    by (simp add: example_env_def)
  have kept: "filter (\<lambda>r. example_dirname (rec_filepath r) \<noteq> js ''/w'') example_table
      = [sentinel,
         \<lparr>rec_vector = axis 0, rec_text = js ''notes'', rec_filepath = js ''init'',
          rec_id = js ''u1''\<rparr>,
         \<lparr>rec_vector = axis 2, rec_text = js ''let b'', rec_filepath = js ''/w/sub/b.ts'',
          rec_id = js ''u3''\<rparr>]"
    by (simp add: example_table_def sentinel_def example_dirname_def js_def)
  have gone: "length (filter (\<lambda>r. example_dirname (rec_filepath r) = js ''/w'') example_table) = 1"
    by (simp add: example_table_def sentinel_def example_dirname_def js_def)
  show ?thesis
    using deleteFolderIndex_exact_directory
      [OF stored_table example_ids_distinct example_ids_plain, of example_env "js ''/w''"]
    by (simp add: d kept gone)
qed


section \<open>The folder scanner\<close>

lemma shouldExclude_False:
  "shouldExclude fe f folder globs = Inr False \<Longrightarrow>
   \<forall>p \<in> set globs. matchesPattern fe f folder p = Inr False"
proof (induction globs)
  case Nil
  show ?case by simp
next
  case (Cons g gs)
  then show ?case
    by (auto split: sum.splits bool.splits if_splits)
qed

lemma scanFound_accepted:
  "scanFound fe folder globs opts found files = Inr out \<Longrightarrow>
   list_all (accepted fe folder globs opts) files \<Longrightarrow>
   list_all (accepted fe folder globs opts) out"
proof (induction found arbitrary: files)
  case Nil
  then show ?case by simp
next
  case (Cons f found)
  have step: "list_all (accepted fe folder globs opts) (files @ [f])"
    if "shouldExclude fe f folder globs = Inr False" "stat_size fe f = Some sz"
       "\<not> sizeExceeds sz (maxFileSize opts)" for sz
    using that Cons.prems(2) by (auto simp: list_all_iff accepted_def)
  from Cons.prems show ?case
    by (auto split: sum.splits bool.splits option.splits if_splits
          dest: Cons.IH step)
qed

lemma scanFound_length:
  "scanFound fe folder globs opts found files = Inr out \<Longrightarrow>
   maxFiles opts = Some m \<Longrightarrow> int (length files) < m \<Longrightarrow> int (length out) \<le> m"
proof (induction found arbitrary: files)
  case Nil
  then show ?case by simp
next
  case (Cons f found)
  from Cons.prems show ?case
    by (auto simp: maxReached_def split: sum.splits bool.splits option.splits if_splits
          dest: Cons.IH)
qed

lemma scanExtensions_accepted:
  "scanExtensions fe folder globs opts exts files = Inr out \<Longrightarrow>
   list_all (accepted fe folder globs opts) files \<Longrightarrow>
   list_all (accepted fe folder globs opts) out"
proof (induction exts arbitrary: files)
  case Nil
  then show ?case by simp
next
  case (Cons ext exts)
  from Cons.prems show ?case
    by (auto split: sum.splits if_splits dest: scanFound_accepted Cons.IH)
qed

lemma scanExtensions_length:
  "scanExtensions fe folder globs opts exts files = Inr out \<Longrightarrow>
   maxFiles opts = Some m \<Longrightarrow> int (length files) < m \<Longrightarrow> int (length out) \<le> m"
proof (induction exts arbitrary: files)
  case Nil
  then show ?case by simp
next
  case (Cons ext exts)
  from Cons.prems(1) obtain mid where
    sf: "scanFound fe folder globs opts (findFiles fe folder (js ''**/*'' @ ext)) files = Inr mid"
    by (auto split: sum.splits)
  note le = scanFound_length [OF sf Cons.prems(2,3)]
  show ?case
  proof (cases "maxReached mid (maxFiles opts)")
    case True
    with Cons.prems(1) sf have "out = mid" by simp
    with le show ?thesis by simp
  next
    case False
    with Cons.prems(1) sf have rest: "scanExtensions fe folder globs opts exts mid = Inr out" by simp
    from False Cons.prems(2) have "int (length mid) < m" by (simp add: maxReached_def)
    from Cons.IH [OF rest Cons.prems(2) this] show ?thesis .
  qed
qed

lemma getFilesToIndex_length:
  assumes "getFilesToIndex fe folderPath opts_arg = Inr files"
    and "maxFiles (mergedOptions fe opts_arg) = Some m" and "1 \<le> m"
  shows "int (length files) \<le> m"
  using assms scanExtensions_length [of fe folderPath _ "mergedOptions fe opts_arg" _ "[]" files m]
  by (auto simp: getFilesToIndex_def Let_def split: option.splits)


subsection \<open>The scanner on the example folder\<close>

lemmas scan_example =
  getFilesToIndex_def mergedOptions_def spread_def no_options_def example_fs_def
  matchesPattern_def example_regexp_def js_def replace_star_def star_def
  sizeExceeds_def maxReached_def

lemma scan_example_all:
  "getFilesToIndex example_fs (js ''/w'') no_options
     = Inr [js ''/w/a.ts'', js ''/w/b.ts'', js ''/w/c.js'']"
  by (simp add: scan_example)

lemma scan_example_two:
  "getFilesToIndex example_fs (js ''/w'') (no_options\<lparr>maxFiles := Some 2\<rparr>)
     = Inr [js ''/w/a.ts'', js ''/w/b.ts'']"
  by (simp add: scan_example)

lemma scan_example_zero:
  "getFilesToIndex example_fs (js ''/w'') (no_options\<lparr>maxFiles := Some 0\<rparr>)
     = Inr [js ''/w/a.ts'']"
  by (simp add: scan_example)

lemma merged_example_two:
  "mergedOptions example_fs (no_options\<lparr>maxFiles := Some 2\<rparr>) =
     \<lparr>maxFileSize = Some 1048576,
      excludePatterns = Some [js ''**/node_modules/**'', js ''**/*.min.js''],
      includeExtensions = Some [js ''.ts'', js ''.js''],
      maxFiles = Some 2\<rparr>"
  by (simp add: mergedOptions_def spread_def no_options_def example_fs_def)

text \<open>
  C2, as the code has it. When getFilesToIndex returns a list: if the merged
  maxFiles is an integer of at least 1, the list has at most maxFiles entries; every
  file in it has a size that stat reports and that does not exceed the merged
  maxFileSize; and the translated form of no exclude glob matches the path of any
  file in it relative to the folder.
\<close>

theorem getFilesToIndex_within_limits:
  assumes "getFilesToIndex fe folderPath opts_arg = Inr files"
  shows "(maxFiles (mergedOptions fe opts_arg) = Some m \<and> 1 \<le> m \<longrightarrow> int (length files) \<le> m) \<and>
     (\<forall>f \<in> set files. \<exists>sz. stat_size fe f = Some sz \<and>
         \<not> sizeExceeds sz (maxFileSize (mergedOptions fe opts_arg))) \<and>
     (\<exists>globs. excludePatterns (mergedOptions fe opts_arg) = Some globs \<and>
        (\<forall>f \<in> set files. \<forall>pattern \<in> set globs.
            matchesPattern fe f folderPath pattern = Inr False))"
proof -
  from assms obtain globs exts where
      g: "excludePatterns (mergedOptions fe opts_arg) = Some globs"
      and sc: "scanExtensions fe folderPath globs (mergedOptions fe opts_arg) exts [] = Inr files"
    by (auto simp: getFilesToIndex_def Let_def split: option.splits)
  have "list_all (accepted fe folderPath globs (mergedOptions fe opts_arg)) files"
    using scanExtensions_accepted [OF sc] by simp
  then have acc: "\<forall>f \<in> set files. accepted fe folderPath globs (mergedOptions fe opts_arg) f"
    by (simp add: list_all_iff)
  have "\<forall>f \<in> set files. \<forall>pattern \<in> set globs. matchesPattern fe f folderPath pattern = Inr False"
    using acc shouldExclude_False by (auto simp: accepted_def)
  moreover have "\<forall>f \<in> set files. \<exists>sz. stat_size fe f = Some sz \<and>
         \<not> sizeExceeds sz (maxFileSize (mergedOptions fe opts_arg))"
    using acc by (auto simp: accepted_def split: option.splits)
  ultimately show ?thesis
    using g getFilesToIndex_length [OF assms] by blast
qed

theorem getFilesToIndex_within_limits_witness:
  "getFilesToIndex example_fs (js ''/w'') (no_options\<lparr>maxFiles := Some 2\<rparr>)
     = Inr [js ''/w/a.ts'', js ''/w/b.ts''] \<and>
   int (length [js ''/w/a.ts'', js ''/w/b.ts'']) \<le> 2 \<and>
   list_all (\<lambda>f. \<exists>sz. stat_size example_fs f = Some sz \<and> \<not> sizeExceeds sz (Some 1048576))
     [js ''/w/a.ts'', js ''/w/b.ts''] \<and>
   list_all (\<lambda>f. list_all (\<lambda>pattern. matchesPattern example_fs f (js ''/w'') pattern = Inr False)
                [js ''**/node_modules/**'', js ''**/*.min.js''])
     [js ''/w/a.ts'', js ''/w/b.ts'']"
  using getFilesToIndex_within_limits [OF scan_example_two, of 2] scan_example_two
  by (simp add: merged_example_two)

text \<open>
  The claim C2 as stated fails where maxFiles is 0: the limit is tested only after
  a file was pushed, so the scan of the example folder returns one file.
\<close>

theorem getFilesToIndex_maxFiles_counterexample:
  "getFilesToIndex example_fs (js ''/w'') (no_options\<lparr>maxFiles := Some 0\<rparr>)
     = Inr [js ''/w/a.ts''] \<and>
   maxFiles (mergedOptions example_fs (no_options\<lparr>maxFiles := Some 0\<rparr>)) = Some 0 \<and>
   \<not> int (length [js ''/w/a.ts'']) \<le> 0"
  by (simp add: scan_example_zero mergedOptions_def spread_def)

lemma validateIndexingOperation_never_too_many:
  assumes "validateIndexingOperation fe folderPath opts_arg = Inr v"
    and "maxFiles opts_arg = Some m" and "1 \<le> m"
  shows "message v \<noteq> TooManyFiles n k"
proof -
  from assms(1) obtain files where gf: "getFilesToIndex fe folderPath opts_arg = Inr files"
    by (auto simp: validateIndexingOperation_def split: sum.splits)
  have "maxFiles (mergedOptions fe opts_arg) = Some m"
    using assms(2) by (simp add: mergedOptions_def spread_def)
  from getFilesToIndex_length [OF gf this assms(3)] have "int (length files) \<le> m" .
  with assms(1,2) gf show ?thesis
    by (auto simp: validateIndexingOperation_def spread_def Let_def split: if_splits)
qed

text \<open>
  C5 fails on the code: validateIndexingOperation counts the list getFilesToIndex
  has already cut at maxFiles, so with a maxFiles of at least 1 in the options it
  never answers with the too-many-files message (the lemma above). In the example
  folder three files qualify; with maxFiles = 2 the validation answers valid, with
  a file count of 2.
\<close>

theorem validateIndexingOperation_counts_truncated:
  "getFilesToIndex example_fs (js ''/w'') no_options
     = Inr [js ''/w/a.ts'', js ''/w/b.ts'', js ''/w/c.js''] \<and>
   validateIndexingOperation example_fs (js ''/w'') (no_options\<lparr>maxFiles := Some 2\<rparr>)
     = Inr \<lparr>valid = True, message = ReadyToIndex 2 30, fileCount = 2\<rparr>"
proof -
  have sample: "sampleSize example_fs [js ''/w/a.ts'', js ''/w/b.ts''] = 30"
    by (simp add: sampleSize_def example_fs_def js_def)
  have "validateIndexingOperation example_fs (js ''/w'') (no_options\<lparr>maxFiles := Some 2\<rparr>)
     = Inr \<lparr>valid = True, message = ReadyToIndex 2 30, fileCount = 2\<rparr>"
    by (simp add: validateIndexingOperation_def scan_example_two sample spread_def)
  with scan_example_all show ?thesis by simp
qed


end
